theory Spec2Isabelle
  imports Complex_Main
begin

section \<open>Data model\<close>

text \<open>
  The three look-back windows are the keys of \<open>time_periods\<close> in
  \<open>fetch_listening_data\<close>; the collector is the only writer of the column
  \<open>time_range\<close>, so the column is modelled by an enumeration.
  Python floats (\<open>avg_rank\<close>, the scores) are modelled by exact rationals.
\<close>

datatype time_range = short_term | medium_term | long_term

datatype error = FetchError string | IndexError | IntegrityError | ZeroDivisionError

text \<open>An item of \<open>sp.current_user_top_tracks(...)['items']\<close>.\<close>

record track_item =
  item_id :: string
  item_name :: string
  item_artists :: "string list"
  item_album_name :: string
  item_release_date :: string
  item_popularity :: int
  item_duration_ms :: int
  item_explicit :: bool
  item_url :: string

text \<open>A row of the live table \<open>tracks\<close>, primary key \<open>(track_id, time_range)\<close>.\<close>

record track_row =
  track_id :: string
  track_name :: string
  artist_name :: string
  album_name :: string
  release_date :: string
  popularity :: int
  duration_ms :: int
  explicit :: bool
  time_range :: time_range
  rank_position :: nat
  collected_date :: string
  spotify_url :: string

text \<open>A row of the live table \<open>artists\<close>, primary key \<open>(artist_name, time_range)\<close>.\<close>

record artist_row =
  a_artist_name :: string
  a_time_range :: time_range
  a_track_count :: nat
  a_total_popularity :: int
  a_avg_rank :: rat
  a_collected_date :: string

record live_db =
  tracks :: "track_row list"
  artists :: "artist_row list"

definition track_key :: "track_row \<Rightarrow> string \<times> time_range" where
  "track_key r = (track_id r, time_range r)"

definition artist_key :: "artist_row \<Rightarrow> string \<times> time_range" where
  "artist_key r = (a_artist_name r, a_time_range r)"

section \<open>Snapshot store: upsert into the live tables\<close>

text \<open>
  \<open>INSERT OR REPLACE\<close>: every row whose primary key equals the key of the new row is
  deleted, then the new row is inserted.
\<close>

definition insert_or_replace :: "('a \<Rightarrow> 'k) \<Rightarrow> 'a \<Rightarrow> 'a list \<Rightarrow> 'a list" where
  "insert_or_replace key r tbl = filter (\<lambda>x. key x \<noteq> key r) tbl @ [r]"

definition upsert_track :: "track_row \<Rightarrow> live_db \<Rightarrow> live_db" where
  "upsert_track r db = db\<lparr>tracks := insert_or_replace track_key r (tracks db)\<rparr>"

definition upsert_artist :: "artist_row \<Rightarrow> live_db \<Rightarrow> live_db" where
  "upsert_artist r db = db\<lparr>artists := insert_or_replace artist_key r (artists db)\<rparr>"

text \<open>\<open>SELECT * FROM t WHERE key = k\<close>.\<close>

definition select_key :: "('a \<Rightarrow> 'k) \<Rightarrow> 'k \<Rightarrow> 'a list \<Rightarrow> 'a list" where
  "select_key key k tbl = filter (\<lambda>x. key x = k) tbl"

section \<open>Collector: \<open>fetch_listening_data\<close>\<close>

text \<open>
  The per-window dictionary \<open>artist_stats\<close>, in insertion order. A new artist starts at
  count 0, total 0 and no ranks, and is then updated like a known one.
\<close>

record artist_stat =
  st_count :: nat
  st_total_pop :: int
  st_ranks :: "nat list"

type_synonym artist_stats = "(string \<times> artist_stat) list"

definition empty_stat :: artist_stat where
  "empty_stat = \<lparr>st_count = 0, st_total_pop = 0, st_ranks = []\<rparr>"

definition add_track :: "int \<Rightarrow> nat \<Rightarrow> artist_stat \<Rightarrow> artist_stat" where
  "add_track p r s =
     \<lparr>st_count = st_count s + 1, st_total_pop = st_total_pop s + p,
      st_ranks = st_ranks s @ [r]\<rparr>"

fun update_stats :: "string \<Rightarrow> int \<Rightarrow> nat \<Rightarrow> artist_stats \<Rightarrow> artist_stats" where
  "update_stats a p r [] = [(a, add_track p r empty_stat)]"
| "update_stats a p r ((b, s) # rest) =
     (if a = b then (b, add_track p r s) # rest else (b, s) # update_stats a p r rest)"

text \<open>The row inserted for an item; \<open>a\<close> is \<open>track['artists'][0]['name']\<close>.\<close>

definition track_row_of :: "string \<Rightarrow> time_range \<Rightarrow> nat \<Rightarrow> string \<Rightarrow> track_item \<Rightarrow> track_row" where
  "track_row_of cd tr rank a t =
     \<lparr>track_id = item_id t, track_name = item_name t, artist_name = a,
      album_name = item_album_name t, release_date = item_release_date t,
      popularity = item_popularity t, duration_ms = item_duration_ms t,
      explicit = item_explicit t, time_range = tr, rank_position = rank,
      collected_date = cd, spotify_url = item_url t\<rparr>"

text \<open>
  The loop over \<open>enumerate(tracks['items'], 1)\<close>. An item with an empty artist list raises
  \<open>IndexError\<close> while the tuple of values is built, before its row is inserted; the rows
  inserted before it stay in the table (the one \<open>commit\<close> is at the end of the run).
\<close>

fun track_loop ::
  "string \<Rightarrow> time_range \<Rightarrow> nat \<Rightarrow> track_item list \<Rightarrow> live_db \<times> artist_stats \<times> nat \<Rightarrow>
   live_db \<times> (error + artist_stats \<times> nat)" where
  "track_loop cd tr rank [] (db, stats, n) = (db, Inr (stats, n))"
| "track_loop cd tr rank (t # ts) (db, stats, n) =
     (case item_artists t of
        [] \<Rightarrow> (db, Inl IndexError)
      | a # _ \<Rightarrow>
          track_loop cd tr (Suc rank) ts
            (upsert_track (track_row_of cd tr rank a t) db,
             update_stats a (item_popularity t) rank stats, Suc n))"

definition avg_rank_of :: "nat list \<Rightarrow> rat" where
  "avg_rank_of rs = of_nat (sum_list rs) / of_nat (length rs)"

definition artist_row_of :: "string \<Rightarrow> time_range \<Rightarrow> string \<times> artist_stat \<Rightarrow> artist_row" where
  "artist_row_of cd tr e =
     \<lparr>a_artist_name = fst e, a_time_range = tr, a_track_count = st_count (snd e),
      a_total_popularity = st_total_pop (snd e), a_avg_rank = avg_rank_of (st_ranks (snd e)),
      a_collected_date = cd\<rparr>"

definition artist_loop :: "string \<Rightarrow> time_range \<Rightarrow> artist_stats \<Rightarrow> live_db \<Rightarrow> live_db" where
  "artist_loop cd tr stats db = fold (\<lambda>e. upsert_artist (artist_row_of cd tr e)) stats db"

text \<open>What the run prints for a window: the number of tracks collected, or the error.\<close>

datatype message = Collected time_range nat | FetchFailed time_range error

text \<open>
  The upstream client \<open>sp.current_user_top_tracks(limit=50, time_range=...)\<close> is a
  parameter: per window it either raises or returns the list of items.
  The body of the \<open>for\<close> loop over the windows, with its \<open>try\<close>/\<open>except Exception\<close>:
\<close>

type_synonym upstream = "time_range \<Rightarrow> error + track_item list"

fun collect_window ::
  "string \<Rightarrow> upstream \<Rightarrow> time_range \<Rightarrow> live_db \<times> nat \<times> message list \<Rightarrow>
   live_db \<times> nat \<times> message list" where
  "collect_window cd sp tr (db, total_tracks, out) =
     (case sp tr of
        Inl e \<Rightarrow> (db, total_tracks, out @ [FetchFailed tr e])
      | Inr items \<Rightarrow>
          (case track_loop cd tr 1 items (db, [], 0) of
             (db', Inl e) \<Rightarrow> (db', total_tracks, out @ [FetchFailed tr e])
           | (db', Inr (stats, n)) \<Rightarrow>
               (artist_loop cd tr stats db', total_tracks + n, out @ [Collected tr n])))"

text \<open>The windows in the order of the dictionary \<open>time_periods\<close>.\<close>

definition time_periods :: "time_range list" where
  "time_periods = [short_term, medium_term, long_term]"

definition fetch_listening_data ::
  "string \<Rightarrow> upstream \<Rightarrow> live_db \<Rightarrow> live_db \<times> nat \<times> message list" where
  "fetch_listening_data cd sp db = fold (collect_window cd sp) time_periods (db, 0, [])"

text \<open>The rows of one look-back window.\<close>

definition window_tracks :: "time_range \<Rightarrow> live_db \<Rightarrow> track_row list" where
  "window_tracks w db = filter (\<lambda>r. time_range r = w) (tracks db)"

definition window_artists :: "time_range \<Rightarrow> live_db \<Rightarrow> artist_row list" where
  "window_artists w db = filter (\<lambda>r. a_time_range r = w) (artists db)"

definition window_rows :: "time_range \<Rightarrow> live_db \<Rightarrow> live_db" where
  "window_rows w db = \<lparr>tracks = window_tracks w db, artists = window_artists w db\<rparr>"

text \<open>The message a window must produce, read off the upstream answer alone.\<close>

definition has_artist :: "track_item \<Rightarrow> bool" where
  "has_artist t = (item_artists t \<noteq> [])"

definition window_message :: "upstream \<Rightarrow> time_range \<Rightarrow> message" where
  "window_message sp w =
     (case sp w of
        Inl e \<Rightarrow> FetchFailed w e
      | Inr items \<Rightarrow>
          if list_all has_artist items then Collected w (length items)
          else FetchFailed w IndexError)"

text \<open>An upstream that answers with the same items, each cut down to its first artist.\<close>

definition cut_artists :: "track_item \<Rightarrow> track_item" where
  "cut_artists t = t\<lparr>item_artists := take 1 (item_artists t)\<rparr>"





text \<open>
  The rows the loop over the items inserts, in order: one per item, up to the first item
  without an artist.
\<close>

fun item_rows :: "string \<Rightarrow> time_range \<Rightarrow> nat \<Rightarrow> track_item list \<Rightarrow> track_row list" where
  "item_rows cd tr rank [] = []"
| "item_rows cd tr rank (t # ts) =
     (case item_artists t of
        [] \<Rightarrow> []
      | a # _ \<Rightarrow> track_row_of cd tr rank a t # item_rows cd tr (Suc rank) ts)"

text \<open>
  Grouping track rows by artist name, as the invariant of the data model words it: the
  distinct artist names in order of first appearance, and per artist the number of its rows,
  the sum of their popularity and the mean of their ranks.
\<close>

definition unique_values :: "'a list \<Rightarrow> 'a list" where
  "unique_values xs = rev (remdups (rev xs))"

definition tracks_of_artist :: "string \<Rightarrow> track_row list \<Rightarrow> track_row list" where
  "tracks_of_artist a ts = filter (\<lambda>r. artist_name r = a) ts"

definition grouped_aggregates :: "track_row list \<Rightarrow> string \<Rightarrow> string \<times> nat \<times> int \<times> rat" where
  "grouped_aggregates ts a =
     (a, length (tracks_of_artist a ts),
      sum_list (map popularity (tracks_of_artist a ts)),
      of_nat (sum_list (map rank_position (tracks_of_artist a ts))) /
        of_nat (length (tracks_of_artist a ts)))"

definition artist_aggregates :: "artist_row \<Rightarrow> string \<times> nat \<times> int \<times> rat" where
  "artist_aggregates r = (a_artist_name r, a_track_count r, a_total_popularity r, a_avg_rank r)"

definition derived_artists :: "time_range \<Rightarrow> live_db \<Rightarrow> (string \<times> nat \<times> int \<times> rat) list" where
  "derived_artists w db =
     map (grouped_aggregates (window_tracks w db))
       (unique_values (map artist_name (window_tracks w db)))"

definition artists_in_sync :: "time_range \<Rightarrow> live_db \<Rightarrow> bool" where
  "artists_in_sync w db =
     (map artist_aggregates (window_artists w db) = derived_artists w db)"

text \<open>The statistics the dictionary \<open>artist_stats\<close> holds for an artist after the rows \<open>rs\<close>.\<close>

definition stat_of :: "track_row list \<Rightarrow> string \<Rightarrow> artist_stat" where
  "stat_of rs a =
     \<lparr>st_count = length (tracks_of_artist a rs),
      st_total_pop = sum_list (map popularity (tracks_of_artist a rs)),
      st_ranks = map rank_position (tracks_of_artist a rs)\<rparr>"

definition stats_step :: "track_row \<Rightarrow> artist_stats \<Rightarrow> artist_stats" where
  "stats_step r st = update_stats (artist_name r) (popularity r) (rank_position r) st"

definition empty_live :: live_db where
  "empty_live = \<lparr>tracks = [], artists = []\<rparr>"

definition ex_item :: "string \<Rightarrow> string list \<Rightarrow> int \<Rightarrow> track_item" where
  "ex_item i as p =
     \<lparr>item_id = i, item_name = i, item_artists = as, item_album_name = ''album'',
      item_release_date = ''2020-01-01'', item_popularity = p, item_duration_ms = 200000,
      item_explicit = False, item_url = ''url''\<rparr>"

definition ex_upstream :: upstream where
  "ex_upstream w =
     (case w of
        short_term \<Rightarrow> Inr [ex_item ''a'' [''X'', ''Y''] 10, ex_item ''b'' [''X''] 30]
      | medium_term \<Rightarrow> Inl (FetchError ''timeout'')
      | long_term \<Rightarrow> Inr [ex_item ''a'' [''X''] 10])"

definition ex_upstream_ok :: upstream where
  "ex_upstream_ok w =
     (case w of
        short_term \<Rightarrow> Inr [ex_item ''a'' [''X'', ''Y''] 10, ex_item ''b'' [''X''] 30]
      | medium_term \<Rightarrow> Inr [ex_item ''c'' [''Z''] 5]
      | long_term \<Rightarrow> Inr [ex_item ''a'' [''X''] 10])"

text \<open>Example rows used at concrete inputs: identifier, artist, window, rank, popularity.\<close>

definition ex_track :: "string \<Rightarrow> string \<Rightarrow> time_range \<Rightarrow> nat \<Rightarrow> int \<Rightarrow> track_row" where
  "ex_track i a w r p =
     \<lparr>track_id = i, track_name = i, artist_name = a, album_name = ''album'',
      release_date = ''2020-01-01'', popularity = p, duration_ms = 200000, explicit = False,
      time_range = w, rank_position = r, collected_date = ''2024-01-01 00:00:00'',
      spotify_url = ''url''\<rparr>"

definition ex_artist :: "string \<Rightarrow> time_range \<Rightarrow> nat \<Rightarrow> int \<Rightarrow> rat \<Rightarrow> artist_row" where
  "ex_artist a w c p r =
     \<lparr>a_artist_name = a, a_time_range = w, a_track_count = c, a_total_popularity = p,
      a_avg_rank = r, a_collected_date = ''2024-01-01 00:00:00''\<rparr>"

section \<open>Upsert: last write wins\<close>

lemma select_key_insert_or_replace:
  "select_key key (key r) (insert_or_replace key r tbl) = [r]"
  by (simp add: select_key_def insert_or_replace_def)

lemma select_key_insert_or_replace_other:
  "k \<noteq> key r \<Longrightarrow>
   select_key key k (insert_or_replace key r tbl) = select_key key k tbl"
  by (induction tbl) (auto simp: select_key_def insert_or_replace_def)

text \<open>
  Claim C2. For every live-table state and any two track rows with the same
  (track identifier, look-back window) key, upserting the first and then the second leaves
  exactly one row for that key, and that row is the second one with all its fields; the
  same holds for artist rows keyed by (artist name, look-back window).
\<close>

theorem upsert_last_write_wins:
  "(track_key r1 = track_key r2 \<longrightarrow>
      select_key track_key (track_key r1)
        (tracks (upsert_track r2 (upsert_track r1 db))) = [r2]) \<and>
   (artist_key a1 = artist_key a2 \<longrightarrow>
      select_key artist_key (artist_key a1)
        (artists (upsert_artist a2 (upsert_artist a1 db))) = [a2])"
  by (simp add: upsert_track_def upsert_artist_def select_key_insert_or_replace)

theorem upsert_last_write_wins_witness:
  "track_key (ex_track ''t1'' ''X'' short_term 1 10) =
     track_key (ex_track ''t1'' ''X'' short_term 2 77) \<and>
   select_key track_key (''t1'', short_term)
     (tracks (upsert_track (ex_track ''t1'' ''X'' short_term 2 77)
        (upsert_track (ex_track ''t1'' ''X'' short_term 1 10)
          \<lparr>tracks = [ex_track ''t1'' ''X'' short_term 5 3], artists = []\<rparr>)))
     = [ex_track ''t1'' ''X'' short_term 2 77] \<and>
   artist_key (ex_artist ''X'' short_term 1 10 1) =
     artist_key (ex_artist ''X'' short_term 2 30 4) \<and>
   select_key artist_key (''X'', short_term)
     (artists (upsert_artist (ex_artist ''X'' short_term 2 30 4)
        (upsert_artist (ex_artist ''X'' short_term 1 10 1)
          \<lparr>tracks = [], artists = []\<rparr>)))
     = [ex_artist ''X'' short_term 2 30 4]"
  using upsert_last_write_wins
    [of "ex_track ''t1'' ''X'' short_term 1 10" "ex_track ''t1'' ''X'' short_term 2 77"
        "\<lparr>tracks = [ex_track ''t1'' ''X'' short_term 5 3], artists = []\<rparr>"
        "ex_artist ''X'' short_term 1 10 1" "ex_artist ''X'' short_term 2 30 4"]
    upsert_last_write_wins
    [of "ex_track ''t1'' ''X'' short_term 1 10" "ex_track ''t1'' ''X'' short_term 2 77"
        "\<lparr>tracks = [], artists = []\<rparr>"
        "ex_artist ''X'' short_term 1 10 1" "ex_artist ''X'' short_term 2 30 4"]
  by (simp add: track_key_def artist_key_def ex_track_def ex_artist_def)

section \<open>Collector: the windows are independent\<close>

lemma window_rows_upsert_track:
  "window_rows w (upsert_track r db) =
     (if time_range r = w then upsert_track r (window_rows w db) else window_rows w db)"
  by (auto simp: window_rows_def window_tracks_def window_artists_def upsert_track_def
      insert_or_replace_def track_key_def intro: filter_cong)

lemma window_rows_upsert_artist:
  "window_rows w (upsert_artist r db) =
     (if a_time_range r = w then upsert_artist r (window_rows w db) else window_rows w db)"
  by (auto simp: window_rows_def window_tracks_def window_artists_def upsert_artist_def
      insert_or_replace_def artist_key_def intro: filter_cong)

lemma window_rows_idem: "window_rows w (window_rows w db) = window_rows w db"
  by (simp add: window_rows_def window_tracks_def window_artists_def)

lemma track_loop_other:
  "tr \<noteq> w \<Longrightarrow> window_rows w (fst (track_loop cd tr rank items (db, st, n))) = window_rows w db"
  by (induction items arbitrary: rank db st n)
     (auto simp: window_rows_upsert_track track_row_of_def split: list.splits)

lemma time_range_track_row_of [simp]: "time_range (track_row_of cd tr rank a t) = tr"
  by (simp add: track_row_of_def)

lemma a_time_range_artist_row_of [simp]: "a_time_range (artist_row_of cd tr e) = tr"
  by (simp add: artist_row_of_def)

lemma upsert_track_window_rows:
  "time_range r = w \<Longrightarrow> upsert_track r (window_rows w db) = window_rows w (upsert_track r db)"
  by (simp add: window_rows_upsert_track)

lemma upsert_artist_window_rows:
  "a_time_range r = w \<Longrightarrow> upsert_artist r (window_rows w db) = window_rows w (upsert_artist r db)"
  by (simp add: window_rows_upsert_artist)

lemma track_loop_same:
  "track_loop cd w rank items (window_rows w db, st, n) =
     (window_rows w (fst (track_loop cd w rank items (db, st, n))),
      snd (track_loop cd w rank items (db, st, n)))"
  by (induction items arbitrary: rank db st n)
     (auto simp: upsert_track_window_rows split: list.splits)

lemma artist_loop_other:
  "tr \<noteq> w \<Longrightarrow> window_rows w (artist_loop cd tr stats db) = window_rows w db"
  unfolding artist_loop_def
  by (induction stats arbitrary: db) (auto simp: window_rows_upsert_artist artist_row_of_def)

lemma artist_loop_same:
  "artist_loop cd w stats (window_rows w db) = window_rows w (artist_loop cd w stats db)"
  unfolding artist_loop_def
  by (induction stats arbitrary: db) (auto simp: upsert_artist_window_rows)

lemma collect_window_db:
  "fst (collect_window cd sp tr (db, t, out)) =
     (case sp tr of
        Inl e \<Rightarrow> db
      | Inr items \<Rightarrow>
          (case snd (track_loop cd tr 1 items (db, [], 0)) of
             Inl e \<Rightarrow> fst (track_loop cd tr 1 items (db, [], 0))
           | Inr sn \<Rightarrow> artist_loop cd tr (fst sn) (fst (track_loop cd tr 1 items (db, [], 0)))))"
  by (auto split: sum.splits prod.splits)

lemma collect_window_other:
  "tr \<noteq> w \<Longrightarrow> window_rows w (fst (collect_window cd sp tr (db, t, out))) = window_rows w db"
  unfolding collect_window_db
  by (simp add: track_loop_other artist_loop_other split: sum.splits)

lemma collect_window_same:
  "window_rows w (fst (collect_window cd sp w (db, t, out))) =
     fst (collect_window cd sp w (window_rows w db, t', out'))"
  unfolding collect_window_db
  by (simp add: track_loop_same artist_loop_same window_rows_idem split: sum.splits)

lemma collect_window_other':
  "tr \<noteq> w \<Longrightarrow> window_rows w (fst (collect_window cd sp tr s)) = window_rows w (fst s)"
  by (cases s) (simp add: collect_window_other del: collect_window.simps)

lemma collect_window_same':
  "window_rows w (fst (collect_window cd sp w s)) =
     fst (collect_window cd sp w (window_rows w (fst s), t', out'))"
  by (cases s) (simp add: collect_window_same[where t'=t' and out'=out'] del: collect_window.simps)

lemma window_result:
  "window_rows w (fst (fetch_listening_data cd sp db)) =
     fst (collect_window cd sp w (window_rows w db, 0, []))"
proof -
  show ?thesis
    by (cases w)
       (simp_all add: fetch_listening_data_def time_periods_def collect_window_other'
          collect_window_same'[where t'=0 and out'="[]"] del: collect_window.simps)
qed

lemma track_loop_snd:
  "snd (track_loop cd tr rank items (db, st, n)) = Inl e \<Longrightarrow> \<not> list_all has_artist items \<and> e = IndexError"
  "snd (track_loop cd tr rank items (db, st, n)) = Inr sn \<Longrightarrow> list_all has_artist items \<and> snd sn = n + length items"
  by (induction items arbitrary: rank db st n)
     (auto simp: has_artist_def split: list.splits)

lemma collect_window_out:
  "snd (snd (collect_window cd sp tr (db, t, out))) = out @ [window_message sp tr]"
proof (cases "sp tr")
  case (Inl e)
  then show ?thesis by (simp add: window_message_def)
next
  case (Inr items)
  obtain db' res where tl: "track_loop cd tr 1 items (db, [], 0) = (db', res)"
    by (cases "track_loop cd tr 1 items (db, [], 0)")
  show ?thesis
  proof (cases res)
    case (Inl e)
    with tl track_loop_snd(1)[of cd tr 1 items db "[]" 0 e] Inr show ?thesis
      by (simp add: window_message_def)
  next
    case (Inr sn)
    with tl track_loop_snd(2)[of cd tr 1 items db "[]" 0 sn] \<open>sp tr = Inr items\<close> show ?thesis
      by (cases sn) (simp add: window_message_def)
  qed
qed

lemma collect_window_out':
  "snd (snd (collect_window cd sp tr s)) = snd (snd s) @ [window_message sp tr]"
  by (cases s) (simp add: collect_window_out del: collect_window.simps)

lemma fetch_messages:
  "snd (snd (fetch_listening_data cd sp db)) = map (window_message sp) time_periods"
  by (simp add: fetch_listening_data_def time_periods_def collect_window_out'
      del: collect_window.simps)

lemma window_unchanged_on_failure:
  "sp w = Inl e \<Longrightarrow> window_rows w (fst (fetch_listening_data cd sp db)) = window_rows w db"
  by (simp add: window_result)

lemma window_independent:
  "sp w = sp' w \<Longrightarrow>
   window_rows w (fst (fetch_listening_data cd sp db)) =
   window_rows w (fst (fetch_listening_data cd sp' db))"
  by (simp add: window_result)

text \<open>
  Claim C9. When the upstream fetch fails for a window, the rows of that window are left as
  they were and the run goes on: the run prints one message per window, in the order of the
  windows, and the message of a failing window is the error of that window. The rows a run
  leaves for a window depend on the upstream answer for that window only, so they are the
  same in any run in which that window gets the same answer, whatever the other windows do.
\<close>

theorem per_window_failure_isolated:
  "(sp w = Inl e \<longrightarrow>
      window_rows w (fst (fetch_listening_data cd sp db)) = window_rows w db) \<and>
   (sp w = sp' w \<longrightarrow>
      window_rows w (fst (fetch_listening_data cd sp db)) =
      window_rows w (fst (fetch_listening_data cd sp' db))) \<and>
   snd (snd (fetch_listening_data cd sp db)) = map (window_message sp) time_periods"
proof (intro conjI impI)
  assume "sp w = Inl e"
  then show "window_rows w (fst (fetch_listening_data cd sp db)) = window_rows w db"
    by (rule window_unchanged_on_failure)
next
  assume "sp w = sp' w"
  then show "window_rows w (fst (fetch_listening_data cd sp db)) =
      window_rows w (fst (fetch_listening_data cd sp' db))"
    by (rule window_independent)
next
  show "snd (snd (fetch_listening_data cd sp db)) = map (window_message sp) time_periods"
    by (rule fetch_messages)
qed

theorem per_window_failure_isolated_witness:
  "ex_upstream medium_term = Inl (FetchError ''timeout'') \<and>
   window_rows medium_term (fst (fetch_listening_data ''now'' ex_upstream empty_live)) =
     window_rows medium_term empty_live \<and>
   ex_upstream short_term = ex_upstream_ok short_term \<and>
   window_rows short_term (fst (fetch_listening_data ''now'' ex_upstream empty_live)) =
     window_rows short_term (fst (fetch_listening_data ''now'' ex_upstream_ok empty_live)) \<and>
   snd (snd (fetch_listening_data ''now'' ex_upstream empty_live)) =
     [Collected short_term 2, FetchFailed medium_term (FetchError ''timeout''),
      Collected long_term 1]"
  using per_window_failure_isolated
      [of ex_upstream medium_term "FetchError ''timeout''" "''now''" empty_live ex_upstream]
    per_window_failure_isolated
      [of ex_upstream short_term "FetchError ''timeout''" "''now''" empty_live ex_upstream_ok]
  by (simp add: ex_upstream_def ex_upstream_ok_def window_message_def time_periods_def
      has_artist_def ex_item_def)

section \<open>Collector: only the first artist of an item is used\<close>

lemma cut_artists_simps [simp]:
  "item_popularity (cut_artists t) = item_popularity t"
  "track_row_of cd tr rank a (cut_artists t) = track_row_of cd tr rank a t"
  "item_artists (cut_artists t) = take 1 (item_artists t)"
  by (simp_all add: cut_artists_def track_row_of_def)





lemma artists_upsert_track [simp]: "artists (upsert_track r db) = artists db"
  by (simp add: upsert_track_def)

lemma tracks_upsert_artist [simp]: "tracks (upsert_artist r db) = tracks db"
  by (simp add: upsert_artist_def)






lemma artist_loop_tracks [simp]: "tracks (artist_loop cd tr stats db) = tracks db"
  unfolding artist_loop_def by (induction stats arbitrary: db) auto









end
